theory Spec2Isabelle
  imports Main "HOL-Library.Sublist"
begin

section \<open>DNS zone export: data model\<close>

text \<open>
  The development follows \<^verbatim>\<open>pkg/providers/dns/command_create_zone.go\<close>.
  Go strings are byte sequences and are modelled as \<^typ>\<open>string\<close>; a Go
  \<^verbatim>\<open>map[string]T\<close> is a partial function from strings.  Go leaves the order of a
  \<^verbatim>\<open>range\<close> over a map unspecified: every loop over a map takes the order in which the
  keys are visited as an explicit list, and the theorems hold for each order that
  enumerates the keys of the map.  Messages printed on the terminal (spinner, notices)
  are not part of the model.
\<close>

type_synonym Types = "string list"

record zoneImportListStruct =
  Zone :: string
  Recordsets :: "string \<rightharpoonup> Types"

record fetchConfigStruct =
  ConfigOnly :: bool
  ModSegment :: bool
  NamesOnly :: bool

text \<open>A Go \<^verbatim>\<open>error\<close> value, and the error \<^verbatim>\<open>cli.Exit(message, code)\<close> that ends the
  command (the colour codes that \<^verbatim>\<open>color.RedString\<close> wraps around the message are left out).\<close>

datatype error = Error string

datatype cli_error = Exit string nat

definition zoneResource :: string where
  "zoneResource = ''akamai_dns_zone''"

definition recordsetResource :: string where
  "recordsetResource = ''akamai_dns_record''"

section \<open>Library functions\<close>

text \<open>\<^verbatim>\<open>strings.Contains(s, substr)\<close>: \<open>substr\<close> occurs in \<open>s\<close> as a contiguous run of bytes.\<close>

fun Contains :: "string \<Rightarrow> string \<Rightarrow> bool" where
  "Contains [] substr = (substr = [])"
| "Contains (c # s) substr = (prefix substr (c # s) \<or> Contains s substr)"

text \<open>The Go expression \<^verbatim>\<open>"\"" + normalName + "\""\<close>.\<close>

definition quoted :: "string \<Rightarrow> string" where
  "quoted normalName = CHR 0x22 # normalName @ [CHR 0x22]"

text \<open>
  An open \<^verbatim>\<open>*os.File\<close> on a regular file: the bytes of the file and the offset of the
  handle.  \<^verbatim>\<open>Write\<close> on a handle opened without \<^verbatim>\<open>O_APPEND\<close> stores the bytes at the
  offset, over what is there, and extends the file when it runs past the end (a gap
  before the offset reads as zero bytes).
\<close>

record file_handle =
  content :: string
  offset :: nat

definition Write :: "file_handle \<Rightarrow> string \<Rightarrow> file_handle" where
  "Write h b =
     \<lparr>content = take (offset h) (content h) @ replicate (offset h - length (content h)) (CHR 0x00)
                 @ b @ drop (offset h + length b) (content h),
      offset = offset h + length b\<rparr>"

text \<open>The outcome of the system calls that can fail for reasons outside the model
  (permissions, a full disk): \<open>None\<close> when the call succeeds.\<close>

record os_faults =
  openErr :: "error option"
  statErr :: "error option"
  readErr :: "error option"
  seekErr :: "error option"
  writeErr :: "error option"

definition noFaults :: os_faults where
  "noFaults = \<lparr>openErr = None, statErr = None, readErr = None, seekErr = None, writeErr = None\<rparr>"

section \<open>Reconciliation against the existing configuration\<close>

text \<open>
  The inner loop of \<^verbatim>\<open>reconcileZoneResourceTargets\<close> over the types of one record name.
  The accumulator is the pair \<^verbatim>\<open>(typeMap, revisedTypeList)\<close>.  The helper that builds the
  resource name (\<^verbatim>\<open>createUniqueRecordsetName\<close>) is not among the sources and is a
  parameter.
\<close>

fun scanTypes ::
  "(string \<Rightarrow> string \<Rightarrow> string \<Rightarrow> string) \<Rightarrow> string \<Rightarrow> string \<Rightarrow> string \<Rightarrow> Types
     \<Rightarrow> (string \<rightharpoonup> bool) \<times> Types \<Rightarrow> (string \<rightharpoonup> bool) \<times> Types" where
  "scanTypes createUniqueRecordsetName zoneName tfConfig zname [] acc = acc"
| "scanTypes createUniqueRecordsetName zoneName tfConfig zname (ntype # rest) (typeMap, revisedTypeList) =
     (let normalName = createUniqueRecordsetName zoneName zname ntype in
      if \<not> Contains tfConfig (quoted normalName)
      then scanTypes createUniqueRecordsetName zoneName tfConfig zname rest
             (typeMap(ntype \<mapsto> True), revisedTypeList @ [ntype])
      else scanTypes createUniqueRecordsetName zoneName tfConfig zname rest
             (typeMap, revisedTypeList))"

text \<open>
  The outer loop \<^verbatim>\<open>for zname, typeList := range zoneImportList.Recordsets\<close>; \<open>order\<close> is
  the order in which Go visits the keys.  The state is the pair of the recordsets map,
  updated in place by the source, and \<^verbatim>\<open>zoneTypeMap\<close>.
\<close>

fun reconcileLoop ::
  "(string \<Rightarrow> string \<Rightarrow> string \<Rightarrow> string) \<Rightarrow> string \<Rightarrow> string \<Rightarrow> string list
     \<Rightarrow> (string \<rightharpoonup> Types) \<times> (string \<rightharpoonup> string \<rightharpoonup> bool)
     \<Rightarrow> (string \<rightharpoonup> Types) \<times> (string \<rightharpoonup> string \<rightharpoonup> bool)" where
  "reconcileLoop createUniqueRecordsetName zoneName tfConfig [] st = st"
| "reconcileLoop createUniqueRecordsetName zoneName tfConfig (zname # order) (recordsets, zoneTypeMap) =
     (case recordsets zname of
        None \<Rightarrow> reconcileLoop createUniqueRecordsetName zoneName tfConfig order (recordsets, zoneTypeMap)
      | Some typeList \<Rightarrow>
          (case scanTypes createUniqueRecordsetName zoneName tfConfig zname typeList (Map.empty, []) of
             (typeMap, revisedTypeList) \<Rightarrow>
               reconcileLoop createUniqueRecordsetName zoneName tfConfig order
                 (recordsets(zname \<mapsto> revisedTypeList), zoneTypeMap(zname \<mapsto> typeMap))))"

text \<open>An order of iteration over a Go map: each key once.\<close>

definition rangeOrder :: "('k \<rightharpoonup> 'v) \<Rightarrow> 'k list \<Rightarrow> bool" where
  "rangeOrder m order = (distinct order \<and> set order = dom m)"

text \<open>
  \<^verbatim>\<open>reconcileZoneResourceTargets\<close>.  \<open>disk\<close> is the content of the target file
  (\<open>None\<close> when there is no file; \<^verbatim>\<open>O_CREATE\<close> then makes an empty one), and the first
  component of the result is the content afterwards.  On success the function returns the
  handle, rewound to offset 0, the existing text \<^verbatim>\<open>tfConfig\<close>, the revised import list
  and the type map.  The name of the file (\<^verbatim>\<open>tools.CreateTFFilename\<close>) plays no part.
\<close>

definition reconcileZoneResourceTargets ::
  "(string \<Rightarrow> string \<Rightarrow> string \<Rightarrow> string) \<Rightarrow> os_faults \<Rightarrow> string list \<Rightarrow> string option
     \<Rightarrow> zoneImportListStruct \<Rightarrow> string
     \<Rightarrow> string option \<times>
        (error + file_handle \<times> string \<times> zoneImportListStruct \<times> (string \<rightharpoonup> string \<rightharpoonup> bool))" where
  "reconcileZoneResourceTargets createUniqueRecordsetName faults order disk zoneImportList zoneName =
     (case openErr faults of
        Some err \<Rightarrow> (disk, Inl err)
      | None \<Rightarrow>
         (let tfScratch = (case disk of None \<Rightarrow> [] | Some bytes \<Rightarrow> bytes) in
          case statErr faults of
            Some err \<Rightarrow> (Some tfScratch, Inl err)
          | None \<Rightarrow>
             (case readErr faults of
                Some err \<Rightarrow> (Some tfScratch, Inl err)
              | None \<Rightarrow>
                 (case seekErr faults of
                    Some err \<Rightarrow> (Some tfScratch, Inl err)
                  | None \<Rightarrow>
                     (let charsRead = length tfScratch;
                          tfConfig = (if charsRead > 0 then take (charsRead - 1) tfScratch else [])
                      in case reconcileLoop createUniqueRecordsetName zoneName tfConfig order
                                (Recordsets zoneImportList, Map.empty) of
                           (recordsets, zoneTypeMap) \<Rightarrow>
                             (Some tfScratch,
                              Inr (\<lparr>content = tfScratch, offset = 0\<rparr>, tfConfig,
                                   zoneImportList\<lparr>Recordsets := recordsets\<rparr>, zoneTypeMap)))))))"

text \<open>The identifiers \<open>(name, type)\<close> of an inventory, and those that an existing text
  declares: the sets that the specification calls Inventory and DeclaredResourceSet
  (the zone is fixed).\<close>

definition identifiers :: "(string \<rightharpoonup> Types) \<Rightarrow> (string \<times> string) set" where
  "identifiers recordsets = {(zname, ntype). \<exists>typeList. recordsets zname = Some typeList \<and> ntype \<in> set typeList}"


text \<open>The residual of one record name as the specification words it: the types of the
  inventory whose quoted identifier does not occur in the existing text, and the map that
  marks each of them.\<close>

definition residualTypes ::
  "(string \<Rightarrow> string \<Rightarrow> string \<Rightarrow> string) \<Rightarrow> string \<Rightarrow> string \<Rightarrow> string \<Rightarrow> Types \<Rightarrow> Types" where
  "residualTypes createUniqueRecordsetName zoneName existingText zname typeList =
     filter (\<lambda>ntype. \<not> Contains existingText (quoted (createUniqueRecordsetName zoneName zname ntype))) typeList"

definition residualTypeMap ::
  "(string \<Rightarrow> string \<Rightarrow> string \<Rightarrow> string) \<Rightarrow> string \<Rightarrow> string \<Rightarrow> string \<Rightarrow> Types \<Rightarrow> (string \<rightharpoonup> bool)" where
  "residualTypeMap createUniqueRecordsetName zoneName existingText zname typeList =
     (\<lambda>ntype. if ntype \<in> set (residualTypes createUniqueRecordsetName zoneName existingText zname typeList)
              then Some True else None)"

section \<open>Writing the root configuration file\<close>

text \<open>
  \<^verbatim>\<open>appendRootModuleTF\<close>: one \<^verbatim>\<open>Write\<close> on the handle that
  \<^verbatim>\<open>reconcileZoneResourceTargets\<close> left open (the global \<^verbatim>\<open>zoneTFfileHandle\<close>, passed
  and returned here).  A write that fails is taken to store nothing.
\<close>

definition appendRootModuleTF :: "os_faults \<Rightarrow> file_handle \<Rightarrow> string \<Rightarrow> error + file_handle" where
  "appendRootModuleTF faults zoneTFfileHandle configText =
     (case writeErr faults of
        Some err \<Rightarrow> Inl (Error ''failed to save zone configuration file'')
      | None \<Rightarrow> Inr (Write zoneTFfileHandle configText))"

text \<open>
  The part of \<^verbatim>\<open>CmdCreateZone\<close> under the comment \<^verbatim>\<open>build tf file if none\<close>: the check of
  the layout of the existing text, the initial zone configuration when there is no text,
  and the write of \<^verbatim>\<open>zonetfConfig\<close> through the handle.  \<open>processZone\<close> is the result of
  the call of \<^verbatim>\<open>processZone\<close>, which is not among the sources.  The result is the handle
  afterwards and either the error of the command or the text written.
\<close>

definition rootModuleStep ::
  "os_faults \<Rightarrow> fetchConfigStruct \<Rightarrow> error + string \<Rightarrow> file_handle \<Rightarrow> string
     \<Rightarrow> file_handle \<times> (cli_error + string)" where
  "rootModuleStep faults fetchConfig processZone zoneTFfileHandle zonetfConfig =
     (let checked =
        (if length zonetfConfig > 0 then
           (if Contains zonetfConfig ''module'' \<and> Contains zonetfConfig ''zonename'' then
              (if \<not> ModSegment fetchConfig
               then Inl (Exit ''Failed. Existing zone config is modularized'' 1)
               else Inr zonetfConfig)
            else if ModSegment fetchConfig
              then Inl (Exit ''Failed. Existing zone config is not modularized'' 1)
              else Inr zonetfConfig)
         else
           (case processZone of
              Inl err \<Rightarrow> Inl (Exit ''Failed. Couldn't initialize zone config'' 1)
            | Inr text \<Rightarrow> Inr text))
      in case checked of
           Inl e \<Rightarrow> (zoneTFfileHandle, Inl e)
         | Inr text \<Rightarrow>
            (case appendRootModuleTF faults zoneTFfileHandle text of
               Inl err \<Rightarrow> (zoneTFfileHandle, Inl (Exit ''Failed. Couldn't write to zone config'' 1))
             | Inr h \<Rightarrow> (h, Inr text)))"

text \<open>
  \<^verbatim>\<open>CmdCreateZone\<close> from the call of \<^verbatim>\<open>reconcileZoneResourceTargets\<close> to the write of the
  root text: the content of the target file afterwards, and either the error of the
  command or the handle, the text written, the residual import list and the type map
  that \<^verbatim>\<open>processRecordsets\<close> receives.
\<close>

definition configFileStep ::
  "(string \<Rightarrow> string \<Rightarrow> string \<Rightarrow> string) \<Rightarrow> os_faults \<Rightarrow> string list \<Rightarrow> fetchConfigStruct
     \<Rightarrow> error + string \<Rightarrow> string option \<Rightarrow> zoneImportListStruct \<Rightarrow> string
     \<Rightarrow> string option \<times>
        (cli_error + file_handle \<times> string \<times> zoneImportListStruct \<times> (string \<rightharpoonup> string \<rightharpoonup> bool))" where
  "configFileStep createUniqueRecordsetName faults order fetchConfig processZone disk zoneImportList
       resourceZoneName =
     (case reconcileZoneResourceTargets createUniqueRecordsetName faults order disk zoneImportList
             resourceZoneName of
        (disk', Inl err) \<Rightarrow> (disk', Inl (Exit ''Failed to open/create zone config file.'' 1))
      | (disk', Inr (h, zonetfConfig, configImportList, zoneTypeMap)) \<Rightarrow>
          (case rootModuleStep faults fetchConfig processZone h zonetfConfig of
             (h', Inl e) \<Rightarrow> (Some (content h'), Inl e)
           | (h', Inr text) \<Rightarrow> (Some (content h'), Inr (h', text, configImportList, zoneTypeMap))))"

section \<open>Loading the inventory for the configuration step\<close>

text \<open>
  \<^verbatim>\<open>retrieveZoneImportList\<close>.  The globals it reads are arguments: \<^verbatim>\<open>createImportList\<close>,
  \<^verbatim>\<open>fetchConfig\<close>, \<^verbatim>\<open>fullZoneImportList\<close> (a pointer, \<open>None\<close> when nil) and \<^verbatim>\<open>zoneName\<close>.
  \<open>importListFile\<close> is the content of the resources list file (\<open>None\<close> when
  \<^verbatim>\<open>os.Stat\<close> fails), \<open>readFileErr\<close> the outcome of \<^verbatim>\<open>ioutil.ReadFile\<close> and \<open>unmarshal\<close>
  stands for \<^verbatim>\<open>json.Unmarshal\<close> into a fresh struct.
\<close>

definition retrieveZoneImportList ::
  "bool \<Rightarrow> fetchConfigStruct \<Rightarrow> zoneImportListStruct option \<Rightarrow> string \<Rightarrow> string option
     \<Rightarrow> error option \<Rightarrow> (string \<Rightarrow> error + zoneImportListStruct)
     \<Rightarrow> error + zoneImportListStruct option" where
  "retrieveZoneImportList createImportList fetchConfig fullZoneImportList zoneName importListFile
       readFileErr unmarshal =
     (if createImportList then Inr fullZoneImportList
      else if ConfigOnly fetchConfig then Inr (Some \<lparr>Zone = zoneName, Recordsets = Map.empty\<rparr>)
      else
        (case importListFile of
           None \<Rightarrow> Inl (Error ''stat: no such file or directory'')
         | Some importData \<Rightarrow>
            (case readFileErr of
               Some err \<Rightarrow> Inl err
             | None \<Rightarrow>
                (case unmarshal importData of
                   Inl err \<Rightarrow> Inl err
                 | Inr importList \<Rightarrow> Inr (Some importList)))))"

section \<open>The inventory step\<close>

text \<open>
  The loop of \<^verbatim>\<open>CmdCreateZone\<close> that fills \<^verbatim>\<open>recordsets\<close>, one call of
  \<^verbatim>\<open>GetZoneNameTypes\<close> for each name unless \<^verbatim>\<open>NamesOnly\<close> is set; the first failure ends
  the command.
\<close>

fun fetchRecordsets ::
  "fetchConfigStruct \<Rightarrow> (string \<Rightarrow> error + Types) \<Rightarrow> string list \<Rightarrow> (string \<rightharpoonup> Types)
     \<Rightarrow> cli_error + (string \<rightharpoonup> Types)" where
  "fetchRecordsets fetchConfig GetZoneNameTypes [] recordsets = Inr recordsets"
| "fetchRecordsets fetchConfig GetZoneNameTypes (zname # rest) recordsets =
     (if NamesOnly fetchConfig
      then fetchRecordsets fetchConfig GetZoneNameTypes rest (recordsets(zname \<mapsto> []))
      else
        (case GetZoneNameTypes zname of
           Inl err \<Rightarrow> Inl (Exit ''Zone Name types retrieval failed'' 1)
         | Inr types \<Rightarrow> fetchRecordsets fetchConfig GetZoneNameTypes rest (recordsets(zname \<mapsto> types))))"

text \<open>
  The block \<^verbatim>\<open>if createImportList\<close> of \<^verbatim>\<open>CmdCreateZone\<close>.  \<open>GetZoneNames\<close> is the result
  of the API call, \<open>workPathIsDir\<close> says whether \<^verbatim>\<open>tfWorkPath\<close> is an accessible directory,
  \<open>importListFile\<close> is the content of the resources list file (\<open>None\<close> when there is
  none), \<open>marshal\<close> stands for \<^verbatim>\<open>json.MarshalIndent\<close>, and \<open>createErr\<close> and the
  \<open>writeErr\<close> of \<open>faults\<close> are the outcomes of \<^verbatim>\<open>os.Create\<close> and \<^verbatim>\<open>WriteString\<close>.
  The result is the content of the file afterwards and either the error of the command
  or the new value of \<^verbatim>\<open>fullZoneImportList\<close>.  \<^verbatim>\<open>os.Create\<close> truncates, so a write that
  fails leaves an empty file.
\<close>

definition createImportListStep ::
  "fetchConfigStruct \<Rightarrow> string list \<Rightarrow> error + string list \<Rightarrow> (string \<Rightarrow> error + Types)
     \<Rightarrow> bool \<Rightarrow> (zoneImportListStruct \<Rightarrow> error + string) \<Rightarrow> error option \<Rightarrow> os_faults
     \<Rightarrow> string \<Rightarrow> string option
     \<Rightarrow> string option \<times> (cli_error + zoneImportListStruct)" where
  "createImportListStep fetchConfig recordNames GetZoneNames GetZoneNameTypes workPathIsDir marshal
       createErr faults zoneName importListFile =
     (case (if length recordNames = 0
            then (case GetZoneNames of
                    Inl err \<Rightarrow> Inl (Exit ''Zone Name retrieval failed'' 1)
                  | Inr names \<Rightarrow> Inr names)
            else Inr recordNames) of
        Inl e \<Rightarrow> (importListFile, Inl e)
      | Inr names \<Rightarrow>
         (case fetchRecordsets fetchConfig GetZoneNameTypes names Map.empty of
            Inl e \<Rightarrow> (importListFile, Inl e)
          | Inr recordsets \<Rightarrow>
             (if workPathIsDir then
                (case importListFile of
                   Some existing \<Rightarrow>
                     (importListFile, Inl (Exit ''Resource list file exists. Remove to continue.'' 1))
                 | None \<Rightarrow>
                    (let fullZoneImportList = \<lparr>Zone = zoneName, Recordsets = recordsets\<rparr> in
                     case marshal fullZoneImportList of
                       Inl err \<Rightarrow>
                         (importListFile,
                          Inl (Exit ''Unable to generate json formatted zone resource list'' 1))
                     | Inr json \<Rightarrow>
                        (case createErr of
                           Some err \<Rightarrow>
                             (importListFile, Inl (Exit ''Unable to create zone resources file'' 1))
                         | None \<Rightarrow>
                            (case writeErr faults of
                               Some err \<Rightarrow>
                                 (Some [], Inl (Exit ''Unable to write zone resources file'' 1))
                             | None \<Rightarrow> (Some json, Inr fullZoneImportList)))))
              else (importListFile, Inl (Exit ''Destination work path is not accessible.'' 1)))))"

section \<open>The import script\<close>

text \<open>
  \<^verbatim>\<open>buildZoneImportScript\<close>, in the version that builds the text by concatenation.  The
  helpers \<^verbatim>\<open>checkForResource\<close> and \<^verbatim>\<open>createRecordsetNormalName\<close> are not among the
  sources and are parameters.  The function returns a nil error on every path, so the
  model returns the text alone.
\<close>

definition importPrefix :: string where
  "importPrefix = ''terraform import ''"

definition newline :: string where
  "newline = [CHR 0x0A]"

fun importTypes ::
  "(string \<Rightarrow> string \<Rightarrow> bool) \<Rightarrow> (string \<Rightarrow> string \<Rightarrow> string \<Rightarrow> string) \<Rightarrow> string \<Rightarrow> string
     \<Rightarrow> string \<Rightarrow> Types \<Rightarrow> string \<Rightarrow> string" where
  "importTypes checkForResource createRecordsetNormalName zone resourceName zname [] importFile = importFile"
| "importTypes checkForResource createRecordsetNormalName zone resourceName zname (tname # rest) importFile =
     (let normalName = createRecordsetNormalName resourceName zname tname in
      if \<not> checkForResource recordsetResource normalName
      then importTypes checkForResource createRecordsetNormalName zone resourceName zname rest
             (importFile @ importPrefix @ recordsetResource @ ''.'' @ normalName @ '' '' @ zone
                @ ''#'' @ zname @ ''#'' @ tname @ newline)
      else importTypes checkForResource createRecordsetNormalName zone resourceName zname rest importFile)"

fun importNames ::
  "(string \<Rightarrow> string \<Rightarrow> bool) \<Rightarrow> (string \<Rightarrow> string \<Rightarrow> string \<Rightarrow> string) \<Rightarrow> string \<Rightarrow> string
     \<Rightarrow> (string \<rightharpoonup> Types) \<Rightarrow> string list \<Rightarrow> string \<Rightarrow> string" where
  "importNames checkForResource createRecordsetNormalName zone resourceName zoneConfigMap [] importFile =
     importFile"
| "importNames checkForResource createRecordsetNormalName zone resourceName zoneConfigMap (zname # order)
       importFile =
     (case zoneConfigMap zname of
        None \<Rightarrow>
          importNames checkForResource createRecordsetNormalName zone resourceName zoneConfigMap order
            importFile
      | Some typeList \<Rightarrow>
          importNames checkForResource createRecordsetNormalName zone resourceName zoneConfigMap order
            (importTypes checkForResource createRecordsetNormalName zone resourceName zname typeList
               importFile))"

definition buildZoneImportScript ::
  "(string \<Rightarrow> string \<Rightarrow> bool) \<Rightarrow> (string \<Rightarrow> string \<Rightarrow> string \<Rightarrow> string) \<Rightarrow> string list
     \<Rightarrow> string \<Rightarrow> (string \<rightharpoonup> Types) \<Rightarrow> string \<Rightarrow> string" where
  "buildZoneImportScript checkForResource createRecordsetNormalName order zone zoneConfigMap resourceName =
     (let importFile = ''terraform init'' @ newline;
          importFile =
            (if \<not> checkForResource zoneResource resourceName
             then importFile @ importPrefix @ zoneResource @ ''.'' @ resourceName @ '' '' @ zone @ newline
             else importFile)
      in importNames checkForResource createRecordsetNormalName zone resourceName zoneConfigMap order
           importFile)"

text \<open>The lines of the script as the specification words them: the initialization line,
  the import of the zone unless it is declared, and one import for each identifier of the
  map that is not declared; and the text of a list of lines.\<close>

definition recordImportLine :: "string \<Rightarrow> string \<Rightarrow> string \<Rightarrow> string \<Rightarrow> string" where
  "recordImportLine zone normalName zname tname =
     ''terraform import akamai_dns_record.'' @ normalName @ '' '' @ zone @ ''#'' @ zname @ ''#'' @ tname"

definition scriptLines ::
  "(string \<Rightarrow> string \<Rightarrow> bool) \<Rightarrow> (string \<Rightarrow> string \<Rightarrow> string \<Rightarrow> string) \<Rightarrow> string list
     \<Rightarrow> string \<Rightarrow> (string \<rightharpoonup> Types) \<Rightarrow> string \<Rightarrow> string list" where
  "scriptLines checkForResource createRecordsetNormalName order zone zoneConfigMap resourceName =
     [''terraform init'']
     @ (if checkForResource ''akamai_dns_zone'' resourceName then []
        else [''terraform import akamai_dns_zone.'' @ resourceName @ '' '' @ zone])
     @ concat (map (\<lambda>zname.
          map (\<lambda>tname. recordImportLine zone (createRecordsetNormalName resourceName zname tname) zname tname)
            (filter (\<lambda>tname. \<not> checkForResource ''akamai_dns_record''
                                 (createRecordsetNormalName resourceName zname tname))
               (case zoneConfigMap zname of None \<Rightarrow> [] | Some typeList \<Rightarrow> typeList)))
          order)"

definition unlines :: "string list \<Rightarrow> string" where
  "unlines ls = concat (map (\<lambda>l. l @ [CHR 0x0A]) ls)"

section \<open>Sample inputs\<close>

text \<open>Concrete inputs on which the functions are run: a resource name of the usual
  shape, a resource check that finds nothing declared, a persisted inventory with the text
  of its file and a decoder of that text, flag settings, and texts of both layouts.\<close>

definition sampleRecordsetName :: "string \<Rightarrow> string \<Rightarrow> string \<Rightarrow> string" where
  "sampleRecordsetName zoneName zname ntype = zoneName @ ''_'' @ zname @ ''_'' @ ntype"

definition nothingDeclared :: "string \<Rightarrow> string \<Rightarrow> bool" where
  "nothingDeclared rtype rname = False"

definition persistedInventory :: zoneImportListStruct where
  "persistedInventory = \<lparr>Zone = ''example.com'', Recordsets = [''www.example.com'' \<mapsto> [''A'']]\<rparr>"

definition noFetchFlags :: fetchConfigStruct where
  "noFetchFlags = \<lparr>ConfigOnly = False, ModSegment = False, NamesOnly = False\<rparr>"

definition sampleText :: string where
  "sampleText = ''resource '' @ quoted ''akamai_dns_record'' @ '' '' @ quoted ''zoneA_www_A'' @ '' {}'' @ newline"

definition exampleInventory :: zoneImportListStruct where
  "exampleInventory = \<lparr>Zone = ''example.com'',
      Recordsets = [''example.com'' \<mapsto> [''A''], ''www.example.com'' \<mapsto> [''CNAME'']]\<rparr>"

definition exampleOrder :: "string list" where
  "exampleOrder = [''example.com'', ''www.example.com'']"

definition sampleEmitted :: string where
  "sampleEmitted = ''resource '' @ quoted ''akamai_dns_record'' @ '' '' @ quoted ''zoneA_www_AAAA'' @ '' {}'' @ newline"

definition persistedJson :: string where
  "persistedJson = ''{'' @ quoted ''Zone'' @ '': '' @ quoted ''example.com'' @ '', '' @ quoted ''Recordsets''
       @ '': {'' @ quoted ''www.example.com'' @ '': ['' @ quoted ''A'' @ '']}}''"

definition decodeJson :: "string \<Rightarrow> error + zoneImportListStruct" where
  "decodeJson importData =
     (if importData = persistedJson then Inr persistedInventory else Inl (Error ''invalid character''))"

definition configOnlyFlags :: fetchConfigStruct where
  "configOnlyFlags = \<lparr>ConfigOnly = True, ModSegment = False, NamesOnly = False\<rparr>"

definition segmentFlags :: fetchConfigStruct where
  "segmentFlags = \<lparr>ConfigOnly = False, ModSegment = True, NamesOnly = False\<rparr>"

definition flatText :: string where
  "flatText = ''resource '' @ quoted ''akamai_dns_zone'' @ '' '' @ quoted ''zoneA'' @ '' {}'' @ newline"

definition modularText :: string where
  "modularText = ''module '' @ quoted ''zoneA'' @ '' { zonename = '' @ quoted ''zonea.com'' @ '' }'' @ newline"

definition wwwInventory :: zoneImportListStruct where
  "wwwInventory = \<lparr>Zone = ''zonea.com'', Recordsets = [''www'' \<mapsto> [''A'']]\<rparr>"

definition sampleTypes :: "string \<Rightarrow> error + Types" where
  "sampleTypes zname = Inr [''A'']"

definition sampleMarshal :: "zoneImportListStruct \<Rightarrow> error + string" where
  "sampleMarshal l = Inr persistedJson"



definition modularTail :: string where
  "modularTail = ''module '' @ quoted ''zoneA'' @ '' { source = '' @ quoted ''./modules/zoneA'' @ '' } # zonename''"

section \<open>Properties of the reconciliation\<close>

lemma Contains_sublist: "Contains s substr = sublist substr s"
  by (induction s) (auto simp: sublist_Cons_right)

lemma Contains_appendI:
  "Contains a s \<or> Contains b s \<Longrightarrow> Contains (a @ b) s"
  unfolding Contains_sublist sublist_def
proof (erule disjE)
  assume "\<exists>ps ss. a = ps @ s @ ss"
  then obtain ps ss where "a = ps @ s @ ss" by blast
  then have "a @ b = ps @ s @ (ss @ b)" by simp
  then show "\<exists>ps ss. a @ b = ps @ s @ ss" by blast
next
  assume "\<exists>ps ss. b = ps @ s @ ss"
  then obtain ps ss where "b = ps @ s @ ss" by blast
  then have "a @ b = (a @ ps) @ s @ ss" by simp
  then show "\<exists>ps ss. a @ b = ps @ s @ ss" by blast
qed

lemma scanTypes_eq:
  "scanTypes f z t n ts (tm, rv) =
     ((\<lambda>x. if x \<in> set ts \<and> \<not> Contains t (quoted (f z n x)) then Some True else tm x),
      rv @ filter (\<lambda>x. \<not> Contains t (quoted (f z n x))) ts)"
  by (induction ts arbitrary: tm rv) (auto simp: fun_eq_iff)

lemma scanTypes_empty:
  "scanTypes f z t n ts (Map.empty, []) = (residualTypeMap f z t n ts, residualTypes f z t n ts)"
  by (auto simp add: scanTypes_eq residualTypeMap_def residualTypes_def fun_eq_iff)

lemma residualTypes_idem: "residualTypes f z t n (residualTypes f z t n ts) = residualTypes f z t n ts"
  by (simp add: residualTypes_def)

lemma residualTypeMap_idem: "residualTypeMap f z t n (residualTypes f z t n ts) = residualTypeMap f z t n ts"
  by (simp add: residualTypeMap_def residualTypes_idem)

lemma reconcileLoop_eq:
  "reconcileLoop f z t ks (recs, ztm) =
     ((\<lambda>n. if n \<in> set ks then map_option (residualTypes f z t n) (recs n) else recs n),
      (\<lambda>n. if n \<in> set ks \<and> recs n \<noteq> None then map_option (residualTypeMap f z t n) (recs n) else ztm n))"
proof (induction ks arbitrary: recs ztm)
  case Nil
  show ?case by simp
next
  case (Cons k ks)
  show ?case
  proof (cases "recs k")
    case None
    then show ?thesis by (auto simp: Cons.IH fun_eq_iff)
  next
    case (Some ts)
    then show ?thesis
      by (auto simp: Cons.IH scanTypes_empty residualTypes_idem residualTypeMap_idem fun_eq_iff)
  qed
qed

lemma reconcileLoop_range:
  assumes "rangeOrder recs ks"
  shows "reconcileLoop f z t ks (recs, Map.empty) =
     ((\<lambda>n. map_option (residualTypes f z t n) (recs n)),
      (\<lambda>n. map_option (residualTypeMap f z t n) (recs n)))"
proof -
  have "\<And>n. n \<notin> set ks \<Longrightarrow> recs n = None"
    using assms by (auto simp: rangeOrder_def)
  then show ?thesis
    by (auto simp: reconcileLoop_eq fun_eq_iff)
qed



lemma sampleText_A: "Contains sampleText (quoted (sampleRecordsetName ''zoneA'' ''www'' ''A''))"
  by (simp add: sampleText_def quoted_def sampleRecordsetName_def newline_def)

lemma sampleText_AAAA: "\<not> Contains sampleText (quoted (sampleRecordsetName ''zoneA'' ''www'' ''AAAA''))"
  by (simp add: sampleText_def quoted_def sampleRecordsetName_def newline_def)

lemma rangeOrder_www: "rangeOrder [''www'' \<mapsto> ts] [''www'']"
  by (simp add: rangeOrder_def)




text \<open>
  Claim C6.  With no prior file, or an empty one, the existing text is empty and
  \<^verbatim>\<open>reconcileZoneResourceTargets\<close> returns the whole inventory as the residual: the
  import list is returned as it was given, and the type map of each record name marks
  every type of its list with \<open>True\<close> and nothing else.
\<close>
theorem empty_text_full_inventory:
  assumes "rangeOrder (Recordsets inventory) order"
    and "disk = None \<or> disk = Some []"
  shows "reconcileZoneResourceTargets f noFaults order disk inventory zoneName
           = (Some [],
              Inr (\<lparr>content = [], offset = 0\<rparr>, [], inventory,
                   (\<lambda>zname. map_option (\<lambda>typeList ntype. if ntype \<in> set typeList then Some True else None)
                                (Recordsets inventory zname))))"
proof -
  have t: "\<And>n. residualTypes f zoneName [] n = (\<lambda>ts. ts)"
    by (simp add: residualTypes_def quoted_def fun_eq_iff)
  have m: "(\<lambda>n. map_option (residualTypes f zoneName [] n) (Recordsets inventory n)) = Recordsets inventory"
    by (simp add: t fun_eq_iff option.map_ident)
  have tm: "\<And>n. residualTypeMap f zoneName [] n = (\<lambda>typeList ntype. if ntype \<in> set typeList then Some True else None)"
    by (simp add: residualTypeMap_def t fun_eq_iff)
  have l: "reconcileLoop f zoneName [] order (Recordsets inventory, Map.empty)
         = (Recordsets inventory,
            (\<lambda>zname. map_option (\<lambda>typeList ntype. if ntype \<in> set typeList then Some True else None)
                                (Recordsets inventory zname)))"
    using assms(1) by (simp add: reconcileLoop_range m tm)
  from assms(2) show ?thesis
  proof
    assume "disk = None"
    then show ?thesis by (simp add: reconcileZoneResourceTargets_def noFaults_def l)
  next
    assume "disk = Some []"
    then show ?thesis by (simp add: reconcileZoneResourceTargets_def noFaults_def l)
  qed
qed

lemma rangeOrder_example: "rangeOrder (Recordsets exampleInventory) exampleOrder"
  by (auto simp: rangeOrder_def exampleInventory_def exampleOrder_def)

theorem empty_text_full_inventory_witness:
  "rangeOrder (Recordsets exampleInventory) exampleOrder
   \<and> reconcileZoneResourceTargets sampleRecordsetName noFaults exampleOrder None exampleInventory ''example_com''
        = (Some [],
           Inr (\<lparr>content = [], offset = 0\<rparr>, [], exampleInventory,
                (\<lambda>zname. map_option (\<lambda>typeList ntype. if ntype \<in> set typeList then Some True else None)
                                (Recordsets exampleInventory zname))))"
  using empty_text_full_inventory [OF rangeOrder_example, of None sampleRecordsetName "''example_com''"]
    rangeOrder_example by simp


text \<open>
  The loop by itself is idempotent on the text handed to it.  The first run matches the
  inventory against \<open>text1\<close> and leaves a residual; when the text of the second run is
  \<open>text1\<close> followed by a text that holds the quoted name of every identifier of the
  first residual, the second run leaves every name with an empty type list and an empty
  type map, in whatever order the keys are visited.
\<close>
lemma reconcile_idempotent:
  assumes "rangeOrder inventory order1"
    and "rangeOrder inventory order2"
    and "reconcileLoop f zoneName text1 order1 (inventory, Map.empty) = (residual1, zoneTypeMap1)"
    and "\<forall>zname typeList. residual1 zname = Some typeList \<longrightarrow>
           (\<forall>ntype \<in> set typeList. Contains emitted (quoted (f zoneName zname ntype)))"
    and "reconcileLoop f zoneName (text1 @ emitted) order2 (inventory, Map.empty) = (residual2, zoneTypeMap2)"
  shows "identifiers residual2 = {}
     \<and> (\<forall>zname. residual2 zname = map_option (\<lambda>typeList. []) (inventory zname))
     \<and> (\<forall>zname. zoneTypeMap2 zname = map_option (\<lambda>typeList. Map.empty) (inventory zname))"
proof -
  have r1: "residual1 = (\<lambda>n. map_option (residualTypes f zoneName text1 n) (inventory n))"
    using assms(1,3) by (simp add: reconcileLoop_range)
  have r2: "residual2 = (\<lambda>n. map_option (residualTypes f zoneName (text1 @ emitted) n) (inventory n))"
    and z2: "zoneTypeMap2 = (\<lambda>n. map_option (residualTypeMap f zoneName (text1 @ emitted) n) (inventory n))"
    using assms(2,5) by (simp_all add: reconcileLoop_range)
  have found: "Contains (text1 @ emitted) (quoted (f zoneName n x))"
    if "inventory n = Some ts" and "x \<in> set ts" for n ts x
  proof (cases "Contains text1 (quoted (f zoneName n x))")
    case True
    then show ?thesis by (simp add: Contains_appendI)
  next
    case False
    with that have "x \<in> set (residualTypes f zoneName text1 n ts)"
      by (simp add: residualTypes_def)
    moreover have "residual1 n = Some (residualTypes f zoneName text1 n ts)"
      using that(1) by (simp add: r1)
    ultimately have "Contains emitted (quoted (f zoneName n x))"
      using assms(4) by blast
    then show ?thesis by (simp add: Contains_appendI)
  qed
  have e: "residualTypes f zoneName (text1 @ emitted) n ts = []" if "inventory n = Some ts" for n ts
    using found [OF that] by (simp add: residualTypes_def)
  have 2: "\<forall>zname. residual2 zname = map_option (\<lambda>typeList. []) (inventory zname)"
  proof
    fix zname show "residual2 zname = map_option (\<lambda>typeList. []) (inventory zname)"
      by (cases "inventory zname") (simp_all add: r2 e)
  qed
  have 3: "\<forall>zname. zoneTypeMap2 zname = map_option (\<lambda>typeList. Map.empty) (inventory zname)"
  proof
    fix zname show "zoneTypeMap2 zname = map_option (\<lambda>typeList. Map.empty) (inventory zname)"
      by (cases "inventory zname") (simp_all add: z2 residualTypeMap_def e)
  qed
  have 1: "identifiers residual2 = {}"
    using 2 by (auto simp: identifiers_def)
  from 1 2 3 show ?thesis by blast
qed

lemma sampleEmitted_AAAA: "Contains sampleEmitted (quoted (sampleRecordsetName ''zoneA'' ''www'' ''AAAA''))"
  by (simp add: sampleEmitted_def quoted_def sampleRecordsetName_def newline_def)

lemma reconcile_idempotent_example:
  "rangeOrder [''www'' \<mapsto> [''A'', ''AAAA'']] [''www'']
   \<and> reconcileLoop sampleRecordsetName ''zoneA'' sampleText [''www''] ([''www'' \<mapsto> [''A'', ''AAAA'']], Map.empty)
        = ([''www'' \<mapsto> [''AAAA'']], [''www'' \<mapsto> [''AAAA'' \<mapsto> True]])
   \<and> Contains sampleEmitted (quoted (sampleRecordsetName ''zoneA'' ''www'' ''AAAA''))
   \<and> fst (reconcileLoop sampleRecordsetName ''zoneA'' (sampleText @ sampleEmitted) [''www'']
             ([''www'' \<mapsto> [''A'', ''AAAA'']], Map.empty)) ''www'' = Some []
   \<and> identifiers (fst (reconcileLoop sampleRecordsetName ''zoneA'' (sampleText @ sampleEmitted) [''www'']
             ([''www'' \<mapsto> [''A'', ''AAAA'']], Map.empty))) = {}"
proof -
  have r: "reconcileLoop sampleRecordsetName ''zoneA'' sampleText [''www''] ([''www'' \<mapsto> [''A'', ''AAAA'']], Map.empty)
           = ([''www'' \<mapsto> [''AAAA'']], [''www'' \<mapsto> [''AAAA'' \<mapsto> True]])"
    using sampleText_A sampleText_AAAA by simp
  have e: "\<forall>zname typeList. [''www'' \<mapsto> [''AAAA'']] zname = Some typeList \<longrightarrow>
           (\<forall>ntype \<in> set typeList. Contains sampleEmitted (quoted (sampleRecordsetName ''zoneA'' zname ntype)))"
    using sampleEmitted_AAAA by (auto split: if_splits)
  have s: "reconcileLoop sampleRecordsetName ''zoneA'' (sampleText @ sampleEmitted) [''www'']
             ([''www'' \<mapsto> [''A'', ''AAAA'']], Map.empty)
           = (fst (reconcileLoop sampleRecordsetName ''zoneA'' (sampleText @ sampleEmitted) [''www'']
             ([''www'' \<mapsto> [''A'', ''AAAA'']], Map.empty)),
              snd (reconcileLoop sampleRecordsetName ''zoneA'' (sampleText @ sampleEmitted) [''www'']
             ([''www'' \<mapsto> [''A'', ''AAAA'']], Map.empty)))"
    by (rule prod.collapse [symmetric])
  show ?thesis
    using reconcile_idempotent [OF rangeOrder_www rangeOrder_www r e s] rangeOrder_www r sampleEmitted_AAAA
    by simp
qed

text \<open>
  Through the function the same holds for a file in which one more byte, such as a final
  newline, follows the text: that byte is the one the function leaves out.
\<close>

lemma reconcile_idempotent_file:
  assumes "rangeOrder (Recordsets inventory) order1"
    and "rangeOrder (Recordsets inventory) order2"
    and "reconcileLoop f zoneName text1 order1 (Recordsets inventory, Map.empty) = (residual1, zoneTypeMap1)"
    and "\<forall>zname typeList. residual1 zname = Some typeList \<longrightarrow>
           (\<forall>ntype \<in> set typeList. Contains emitted (quoted (f zoneName zname ntype)))"
  shows "reconcileZoneResourceTargets f noFaults order2 (Some (text1 @ emitted @ [c])) inventory zoneName
     = (Some (text1 @ emitted @ [c]),
        Inr (\<lparr>content = text1 @ emitted @ [c], offset = 0\<rparr>, text1 @ emitted,
             inventory\<lparr>Recordsets := (\<lambda>zname. map_option (\<lambda>typeList. []) (Recordsets inventory zname))\<rparr>,
             (\<lambda>zname. map_option (\<lambda>typeList. Map.empty) (Recordsets inventory zname))))"
proof -
  obtain residual2 zoneTypeMap2 where
    s: "reconcileLoop f zoneName (text1 @ emitted) order2 (Recordsets inventory, Map.empty) = (residual2, zoneTypeMap2)"
    by (cases "reconcileLoop f zoneName (text1 @ emitted) order2 (Recordsets inventory, Map.empty)")
  from reconcile_idempotent [OF assms(1,2,3,4) s]
  have "residual2 = (\<lambda>zname. map_option (\<lambda>typeList. []) (Recordsets inventory zname))"
    and "zoneTypeMap2 = (\<lambda>zname. map_option (\<lambda>typeList. Map.empty) (Recordsets inventory zname))"
    by (simp_all add: fun_eq_iff)
  with s show ?thesis
    by (simp add: reconcileZoneResourceTargets_def noFaults_def Let_def)
qed


lemma scanner_text:
  "reconcileZoneResourceTargets f noFaults order (Some bytes) inventory zoneName = (d, Inr (h, tfConfig, rest))
     \<Longrightarrow> tfConfig = butlast bytes"
  by (auto simp: reconcileZoneResourceTargets_def noFaults_def butlast_conv_take Let_def split: prod.splits)

text \<open>
  Claim C3.  The text that \<^verbatim>\<open>reconcileZoneResourceTargets\<close> reads back is the content
  of the file without its last byte (\<^verbatim>\<open>tfScratch[0:charsRead-1]\<close>), not the content.
  For a file that holds exactly the quoted name of \<open>(zoneA, www, A)\<close>, the text returned
  lacks the closing quote, and the identifier that the file declares is reported as
  residual.
\<close>
theorem scanner_drops_last_byte:
  "reconcileZoneResourceTargets sampleRecordsetName noFaults [''www''] (Some (quoted ''zoneA_www_A''))
       \<lparr>Zone = ''zoneA'', Recordsets = [''www'' \<mapsto> [''A'']]\<rparr> ''zoneA''
     = (Some (quoted ''zoneA_www_A''),
        Inr (\<lparr>content = quoted ''zoneA_www_A'', offset = 0\<rparr>,
             CHR 0x22 # ''zoneA_www_A'',
             \<lparr>Zone = ''zoneA'', Recordsets = [''www'' \<mapsto> [''A'']]\<rparr>,
             [''www'' \<mapsto> [''A'' \<mapsto> True]]))"
  by (simp add: reconcileZoneResourceTargets_def noFaults_def quoted_def sampleRecordsetName_def Let_def)

section \<open>Loading the inventory and checking the layout\<close>


text \<open>
  Claim C4, as stated, fails.  With \<^verbatim>\<open>ConfigOnly\<close> set and the inventory step not run,
  \<^verbatim>\<open>retrieveZoneImportList\<close> returns an inventory without recordsets and never looks at
  the resources list file: here the file holds the inventory \<open>{www.example.com: [A]}\<close>,
  and the inventory returned is not that one.
\<close>

theorem configOnly_does_not_load_side_file:
  "decodeJson persistedJson = Inr persistedInventory
   \<and> retrieveZoneImportList False configOnlyFlags None ''example.com'' (Some persistedJson) None decodeJson
        = Inr (Some \<lparr>Zone = ''example.com'', Recordsets = Map.empty\<rparr>)
   \<and> retrieveZoneImportList False configOnlyFlags None ''example.com'' (Some persistedJson) None decodeJson
        \<noteq> Inr (Some persistedInventory)"
  by (simp add: retrieveZoneImportList_def configOnlyFlags_def decodeJson_def persistedInventory_def fun_eq_iff)

text \<open>
  Claim C4, amended.  The inventory of the configuration step comes from one of three
  places.  When the inventory step ran in the same command (\<^verbatim>\<open>createImportList\<close>), it is
  the list that step built.  Otherwise, when \<^verbatim>\<open>ConfigOnly\<close> is set, it is the inventory
  of the zone with no recordsets, whatever the resources list file holds.  Only when
  neither is set is the resources list file read, and the inventory is then what the file
  decodes to (or the decoding error).
\<close>

theorem retrieveZoneImportList_sources:
  "retrieveZoneImportList True fetchConfig fullZoneImportList zoneName importListFile readFileErr unmarshal
     = Inr fullZoneImportList
   \<and> retrieveZoneImportList False (fetchConfig\<lparr>ConfigOnly := True\<rparr>) fullZoneImportList zoneName
        importListFile readFileErr unmarshal
     = Inr (Some \<lparr>Zone = zoneName, Recordsets = Map.empty\<rparr>)
   \<and> retrieveZoneImportList False (fetchConfig\<lparr>ConfigOnly := False\<rparr>) fullZoneImportList zoneName
        (Some importData) None unmarshal
     = (case unmarshal importData of Inl err \<Rightarrow> Inl err | Inr persisted \<Rightarrow> Inr (Some persisted))"
  by (simp add: retrieveZoneImportList_def)

theorem retrieveZoneImportList_sources_witness:
  "retrieveZoneImportList False (noFetchFlags\<lparr>ConfigOnly := True\<rparr>) None ''example.com''
        (Some persistedJson) None decodeJson
     = Inr (Some \<lparr>Zone = ''example.com'', Recordsets = Map.empty\<rparr>)
   \<and> retrieveZoneImportList False (noFetchFlags\<lparr>ConfigOnly := False\<rparr>) None ''example.com''
        (Some persistedJson) None decodeJson
     = Inr (Some persistedInventory)"
  using retrieveZoneImportList_sources [of noFetchFlags None "''example.com''" "Some persistedJson" None decodeJson persistedJson]
  by (simp add: decodeJson_def)

text \<open>
  The check of the layout on the text it is handed.  For every non-empty \<^verbatim>\<open>zonetfConfig\<close>:
  when \<^verbatim>\<open>ModSegment\<close> is set and the text does not hold both \<open>module\<close> and
  \<open>zonename\<close>, the step ends with the error \<open>not modularized\<close> and exit code 1; when
  \<^verbatim>\<open>ModSegment\<close> is not set and the text holds both, it ends with the error
  \<open>modularized\<close> and exit code 1.  In both cases the handle comes back as it was.
\<close>

lemma layout_conflict_is_fatal:
  assumes "zonetfConfig \<noteq> []"
  shows "(ModSegment fetchConfig \<and> \<not> (Contains zonetfConfig ''module'' \<and> Contains zonetfConfig ''zonename'')
            \<longrightarrow> rootModuleStep faults fetchConfig processZone h zonetfConfig
                  = (h, Inl (Exit ''Failed. Existing zone config is not modularized'' 1)))
       \<and> (\<not> ModSegment fetchConfig \<and> Contains zonetfConfig ''module'' \<and> Contains zonetfConfig ''zonename''
            \<longrightarrow> rootModuleStep faults fetchConfig processZone h zonetfConfig
                  = (h, Inl (Exit ''Failed. Existing zone config is modularized'' 1)))"
  using assms by (simp add: rootModuleStep_def)

lemma flatText_flat: "\<not> Contains flatText ''module''"
  by (simp add: flatText_def quoted_def newline_def)

lemma modularText_modular: "Contains modularText ''module'' \<and> Contains modularText ''zonename''"
  by (simp add: modularText_def quoted_def newline_def)

lemma layout_conflict_is_fatal_example:
  "flatText \<noteq> [] \<and> ModSegment segmentFlags \<and> \<not> Contains flatText ''module''
   \<and> rootModuleStep noFaults segmentFlags (Inr ''zone text'') \<lparr>content = flatText, offset = 0\<rparr> flatText
        = (\<lparr>content = flatText, offset = 0\<rparr>, Inl (Exit ''Failed. Existing zone config is not modularized'' 1))
   \<and> modularText \<noteq> [] \<and> \<not> ModSegment noFetchFlags
   \<and> Contains modularText ''module'' \<and> Contains modularText ''zonename''
   \<and> rootModuleStep noFaults noFetchFlags (Inr ''zone text'') \<lparr>content = modularText, offset = 0\<rparr> modularText
        = (\<lparr>content = modularText, offset = 0\<rparr>, Inl (Exit ''Failed. Existing zone config is modularized'' 1))"
proof -
  have f: "flatText \<noteq> []" by (simp add: flatText_def)
  have m: "modularText \<noteq> []" by (simp add: modularText_def)
  have s: "ModSegment segmentFlags" "\<not> ModSegment noFetchFlags"
    by (simp_all add: segmentFlags_def noFetchFlags_def)
  show ?thesis
    using layout_conflict_is_fatal [OF f, of segmentFlags noFaults "Inr ''zone text''" "\<lparr>content = flatText, offset = 0\<rparr>"]
      layout_conflict_is_fatal [OF m, of noFetchFlags noFaults "Inr ''zone text''" "\<lparr>content = modularText, offset = 0\<rparr>"]
      f m s flatText_flat modularText_modular
    by simp
qed

text \<open>
  Claim C5.  The run does not reject every mismatch of layout, because the text checked is
  the file without its last byte.  A run with \<^verbatim>\<open>ModSegment\<close> set on the file of the one
  byte \<open>#\<close>, which has no module marker, sees an empty text, skips the check, and writes
  the zone configuration over the byte with no error.  A run without \<^verbatim>\<open>ModSegment\<close> on a
  file that holds \<open>module\<close> and ends in \<open>zonename\<close> checks a text that ends in
  \<open>zonenam\<close>, takes the file for a flat one, and goes on to write with no error.
\<close>

theorem layout_conflict_missed:
  "configFileStep sampleRecordsetName noFaults [''www''] segmentFlags (Inr modularText) (Some ''#'')
       wwwInventory ''zoneA''
     = (Some modularText,
        Inr (\<lparr>content = modularText, offset = length modularText\<rparr>, modularText, wwwInventory,
             [''www'' \<mapsto> [''A'' \<mapsto> True]]))
   \<and> \<not> Contains ''#'' ''module''
   \<and> Contains modularTail ''module'' \<and> Contains modularTail ''zonename''
   \<and> configFileStep sampleRecordsetName noFaults [''www''] noFetchFlags (Inr flatText) (Some modularTail)
       wwwInventory ''zoneA''
     = (Some modularTail,
        Inr (\<lparr>content = modularTail, offset = length modularTail - 1\<rparr>, butlast modularTail, wwwInventory,
             [''www'' \<mapsto> [''A'' \<mapsto> True]]))"
  by (simp add: configFileStep_def reconcileZoneResourceTargets_def rootModuleStep_def
      appendRootModuleTF_def Write_def noFaults_def noFetchFlags_def segmentFlags_def newline_def Let_def
      modularText_def modularTail_def quoted_def wwwInventory_def sampleRecordsetName_def)

section \<open>Appending, the import script and the inventory step\<close>

text \<open>
  Claim C8.  The text written is not appended after the prior content.  The handle is
  rewound to offset 0 and the existing text, read without its last byte, is written
  back, which leaves the offset one byte before the end.  For a flat file that declares the
  zone and ends in a newline, and an inventory \<open>{www: [A]}\<close> that the file does not
  declare, the next text written through \<^verbatim>\<open>appendRootModuleTF\<close> replaces the final
  newline, and the prior content is no prefix of the new content.  For a file of one byte
  the existing text is empty, the initial zone configuration is written at offset 0 and
  replaces that byte.
\<close>

theorem append_overwrites_existing_text:
  "configFileStep sampleRecordsetName noFaults [''www''] noFetchFlags (Inr flatText) (Some flatText)
       wwwInventory ''zoneA''
     = (Some flatText,
        Inr (\<lparr>content = flatText, offset = length flatText - 1\<rparr>, butlast flatText, wwwInventory,
             [''www'' \<mapsto> [''A'' \<mapsto> True]]))
   \<and> appendRootModuleTF noFaults \<lparr>content = flatText, offset = length flatText - 1\<rparr> sampleText
     = Inr \<lparr>content = butlast flatText @ sampleText, offset = length flatText - 1 + length sampleText\<rparr>
   \<and> \<not> prefix flatText (butlast flatText @ sampleText)
   \<and> configFileStep sampleRecordsetName noFaults [''www''] noFetchFlags (Inr flatText) (Some ''#'')
       wwwInventory ''zoneA''
     = (Some flatText,
        Inr (\<lparr>content = flatText, offset = length flatText\<rparr>, flatText, wwwInventory,
             [''www'' \<mapsto> [''A'' \<mapsto> True]]))
   \<and> \<not> prefix ''#'' flatText"
  by (simp add: configFileStep_def reconcileZoneResourceTargets_def rootModuleStep_def
      appendRootModuleTF_def Write_def noFaults_def noFetchFlags_def newline_def Let_def
      flatText_def sampleText_def quoted_def wwwInventory_def sampleRecordsetName_def)

lemma importTypes_eq:
  "importTypes chk nn zone rn zname ts acc =
     acc @ unlines (map (\<lambda>tname. recordImportLine zone (nn rn zname tname) zname tname)
                     (filter (\<lambda>tname. \<not> chk ''akamai_dns_record'' (nn rn zname tname)) ts))"
  by (induction ts arbitrary: acc)
     (simp_all add: unlines_def recordImportLine_def importPrefix_def recordsetResource_def newline_def Let_def)

lemma unlines_append: "unlines (xs @ ys) = unlines xs @ unlines ys"
  by (simp add: unlines_def)


lemma importNames_eq:
  "importNames chk nn zone rn m ks acc =
     acc @ unlines (concat (map (\<lambda>zname.
          map (\<lambda>tname. recordImportLine zone (nn rn zname tname) zname tname)
            (filter (\<lambda>tname. \<not> chk ''akamai_dns_record'' (nn rn zname tname))
               (case m zname of None \<Rightarrow> [] | Some typeList \<Rightarrow> typeList))) ks))"
proof (induction ks arbitrary: acc)
  case Nil
  show ?case by (simp add: unlines_def)
next
  case (Cons k ks)
  show ?case
    by (cases "m k") (simp_all add: Cons.IH importTypes_eq unlines_append)
qed

text \<open>
  Claim C9.  For every zone config map, in whatever order its keys are visited, the
  import script is the text of these lines: \<open>terraform init\<close>, then the import of the
  zone resource exactly when \<^verbatim>\<open>checkForResource\<close> does not find it declared, then one
  import of a record resource for each type of each name that is not found declared.  The
  number of lines is one, plus one for an undeclared zone, plus the number of undeclared
  identifiers of the map.  For the inventory of two recordsets with nothing declared the
  script has exactly four lines.
\<close>

theorem import_script_lines:
  assumes "rangeOrder zoneConfigMap order"
  shows "buildZoneImportScript checkForResource createRecordsetNormalName order zone zoneConfigMap resourceName
           = unlines (scriptLines checkForResource createRecordsetNormalName order zone zoneConfigMap resourceName)
     \<and> length (scriptLines checkForResource createRecordsetNormalName order zone zoneConfigMap resourceName)
           = 1 + (if checkForResource zoneResource resourceName then 0 else 1)
               + (\<Sum>zname \<in> dom zoneConfigMap.
                    length (filter (\<lambda>tname. \<not> checkForResource recordsetResource
                                                 (createRecordsetNormalName resourceName zname tname))
                              (the (zoneConfigMap zname))))"
proof -
  have 1: "buildZoneImportScript checkForResource createRecordsetNormalName order zone zoneConfigMap resourceName
           = unlines (scriptLines checkForResource createRecordsetNormalName order zone zoneConfigMap resourceName)"
    by (simp add: buildZoneImportScript_def scriptLines_def importNames_eq unlines_append
        zoneResource_def importPrefix_def Let_def unlines_def newline_def)
  have d: "distinct order" and s: "set order = dom zoneConfigMap"
    using assms by (simp_all add: rangeOrder_def)
  have "(\<Sum>zname\<leftarrow>order. length (filter (\<lambda>tname. \<not> checkForResource recordsetResource
                                                 (createRecordsetNormalName resourceName zname tname))
                              (case zoneConfigMap zname of None \<Rightarrow> [] | Some typeList \<Rightarrow> typeList)))
      = (\<Sum>zname \<in> dom zoneConfigMap.
                    length (filter (\<lambda>tname. \<not> checkForResource recordsetResource
                                                 (createRecordsetNormalName resourceName zname tname))
                              (case zoneConfigMap zname of None \<Rightarrow> [] | Some typeList \<Rightarrow> typeList)))"
    using d s by (simp add: sum_list_distinct_conv_sum_set)
  also have "\<dots> = (\<Sum>zname \<in> dom zoneConfigMap.
                    length (filter (\<lambda>tname. \<not> checkForResource recordsetResource
                                                 (createRecordsetNormalName resourceName zname tname))
                              (the (zoneConfigMap zname))))"
    by (rule sum.cong) auto
  finally have 2: "length (scriptLines checkForResource createRecordsetNormalName order zone zoneConfigMap resourceName)
           = 1 + (if checkForResource zoneResource resourceName then 0 else 1)
               + (\<Sum>zname \<in> dom zoneConfigMap.
                    length (filter (\<lambda>tname. \<not> checkForResource recordsetResource
                                                 (createRecordsetNormalName resourceName zname tname))
                              (the (zoneConfigMap zname))))"
    by (simp add: scriptLines_def length_concat comp_def zoneResource_def recordsetResource_def)
  from 1 2 show ?thesis by blast
qed


theorem import_script_lines_witness:
  "rangeOrder (Recordsets exampleInventory) exampleOrder
   \<and> buildZoneImportScript nothingDeclared sampleRecordsetName exampleOrder ''example.com''
        (Recordsets exampleInventory) ''example_com''
      = unlines [''terraform init'',
                 ''terraform import akamai_dns_zone.example_com example.com'',
                 ''terraform import akamai_dns_record.example_com_example.com_A example.com#example.com#A'',
                 ''terraform import akamai_dns_record.example_com_www.example.com_CNAME example.com#www.example.com#CNAME'']
   \<and> length (scriptLines nothingDeclared sampleRecordsetName exampleOrder ''example.com''
        (Recordsets exampleInventory) ''example_com'') = 4"
proof -
  have l: "scriptLines nothingDeclared sampleRecordsetName exampleOrder ''example.com''
        (Recordsets exampleInventory) ''example_com''
      = [''terraform init'',
                 ''terraform import akamai_dns_zone.example_com example.com'',
                 ''terraform import akamai_dns_record.example_com_example.com_A example.com#example.com#A'',
                 ''terraform import akamai_dns_record.example_com_www.example.com_CNAME example.com#www.example.com#CNAME'']"
    by (simp add: scriptLines_def nothingDeclared_def sampleRecordsetName_def exampleOrder_def
        exampleInventory_def recordImportLine_def)
  show ?thesis
    using import_script_lines [OF rangeOrder_example, of nothingDeclared sampleRecordsetName "''example.com''" "''example_com''"]
      rangeOrder_example
    by (simp add: l)
qed

lemma fetchRecordsets_error:
  "fetchRecordsets fetchConfig GetZoneNameTypes names recordsets = Inl e
     \<Longrightarrow> e = Exit ''Zone Name types retrieval failed'' 1"
  by (induction names arbitrary: recordsets) (auto split: if_splits sum.splits)

text \<open>
  Claim C10.  When the resources list file exists, the inventory step ends with an error
  of exit code 1 and leaves the content of the file as it was, whatever the API returns
  and whatever the flags are.  The message is that of a failed API call, of the existing
  file, or of the inaccessible work path.
\<close>

theorem existing_resource_list_is_kept:
  "\<exists>msg \<in> {''Zone Name retrieval failed'', ''Zone Name types retrieval failed'',
              ''Resource list file exists. Remove to continue.'',
              ''Destination work path is not accessible.''}.
     createImportListStep fetchConfig recordNames GetZoneNames GetZoneNameTypes workPathIsDir marshal
         createErr faults zoneName (Some existing)
       = (Some existing, Inl (Exit msg 1))"
proof -
  let ?names = "if length recordNames = 0
            then (case GetZoneNames of
                    Inl err \<Rightarrow> Inl (Exit ''Zone Name retrieval failed'' 1)
                  | Inr names \<Rightarrow> Inr names)
            else Inr recordNames"
  let ?step = "createImportListStep fetchConfig recordNames GetZoneNames GetZoneNameTypes workPathIsDir marshal
         createErr faults zoneName (Some existing)"
  show ?thesis
  proof (cases ?names)
    case (Inl e)
    then have "e = Exit ''Zone Name retrieval failed'' 1"
      by (simp split: if_splits sum.splits)
    with Inl have "?step = (Some existing, Inl (Exit ''Zone Name retrieval failed'' 1))"
      by (simp add: createImportListStep_def)
    then show ?thesis by simp
  next
    case names: (Inr names)
    show ?thesis
    proof (cases "fetchRecordsets fetchConfig GetZoneNameTypes names Map.empty")
      case (Inl e)
      then have "e = Exit ''Zone Name types retrieval failed'' 1"
        by (rule fetchRecordsets_error)
      with names Inl have "?step = (Some existing, Inl (Exit ''Zone Name types retrieval failed'' 1))"
        by (simp add: createImportListStep_def)
      then show ?thesis by simp
    next
      case (Inr recordsets)
      show ?thesis
      proof (cases workPathIsDir)
        case True
        with names Inr have "?step = (Some existing, Inl (Exit ''Resource list file exists. Remove to continue.'' 1))"
          by (simp add: createImportListStep_def)
        then show ?thesis by simp
      next
        case False
        with names Inr have "?step = (Some existing, Inl (Exit ''Destination work path is not accessible.'' 1))"
          by (simp add: createImportListStep_def)
        then show ?thesis by simp
      qed
    qed
  qed
qed

theorem existing_resource_list_is_kept_witness:
  "createImportListStep noFetchFlags [] (Inr [''www.example.com'']) sampleTypes True sampleMarshal
         None noFaults ''example.com'' (Some persistedJson)
       = (Some persistedJson, Inl (Exit ''Resource list file exists. Remove to continue.'' 1))
   \<and> createImportListStep noFetchFlags [] (Inr [''www.example.com'']) sampleTypes True sampleMarshal
         None noFaults ''example.com'' None
       = (Some persistedJson, Inr persistedInventory)"
  using existing_resource_list_is_kept [of noFetchFlags "[]" "Inr [''www.example.com'']" sampleTypes True sampleMarshal
         None noFaults "''example.com''" persistedJson]
  by (simp add: createImportListStep_def noFetchFlags_def sampleTypes_def sampleMarshal_def noFaults_def
      persistedInventory_def)

end
